theory Spec2Isabelle
  imports Main
begin

section \<open>JavaScript values of the request and response bodies\<close>

text \<open>
  The fields that \<open>express.json()\<close> hands to the handlers of \<open>backend/src/app.js\<close>.
  A key that the body does not carry destructures to \<open>undefined\<close>. Numbers are
  integers; arrays and nested objects as field values are left out.
\<close>

datatype jsval = JUndefined | JNull | JBool bool | JNum int | JStr string

text \<open>JavaScript truthiness, as tested by \<open>!title\<close> and by \<open>||\<close>.\<close>

fun truthy :: "jsval \<Rightarrow> bool" where
  "truthy JUndefined = False"
| "truthy JNull = False"
| "truthy (JBool b) = b"
| "truthy (JNum n) = (n \<noteq> 0)"
| "truthy (JStr s) = (s \<noteq> [])"

text \<open>The operator \<open>a || b\<close>.\<close>

definition js_or :: "jsval \<Rightarrow> jsval \<Rightarrow> jsval" where
  "js_or a b = (if truthy a then a else b)"

text \<open>\<open>const { title, description } = req.body\<close>.\<close>

record req_body =
  title :: jsval
  description :: jsval

section \<open>The store\<close>

text \<open>
  One row of the table that \<open>initDb\<close> creates:
  \<open>id INT AUTO_INCREMENT PRIMARY KEY, title VARCHAR(255) NOT NULL, description TEXT,
  created_at TIMESTAMP DEFAULT CURRENT_TIMESTAMP\<close>. The nullable \<open>description\<close> column is
  an option.
\<close>

record task_row =
  t_id :: int
  t_title :: string
  t_description :: "string option"
  t_created_at :: nat

text \<open>
  The database server behind the pool: whether it answers, whether the database and the
  \<open>tasks\<close> table exist, the rows in insertion order, the next AUTO_INCREMENT value and the
  store's clock.
\<close>

record store =
  up :: bool
  has_db :: bool
  has_table :: bool
  rows :: "task_row list"
  auto_inc :: int
  now :: nat

datatype store_error =
  ConnectionRefused | UnknownDatabase | NoSuchTable | BadNull | DataTooLong | OutOfRange

text \<open>A statement handed to \<open>query\<close>: the SQL text and the values bound to its \<open>?\<close>.\<close>

datatype stmt = Stmt string "jsval list"

text \<open>The result header of a mutating statement.\<close>

record ok_packet =
  insertId :: int
  affectedRows :: nat

datatype sqlval = SqlNull | SqlText string

text \<open>Decimal rendering of a number bound to a text column.\<close>

fun show_nat :: "nat \<Rightarrow> string" where
  "show_nat n =
     (if n < 10 then [char_of (48 + n)] else show_nat (n div 10) @ [char_of (48 + n mod 10)])"

definition show_int :: "int \<Rightarrow> string" where
  "show_int i = (if i < 0 then CHR ''-'' # show_nat (nat (- i)) else show_nat (nat i))"

text \<open>
  Modelled from the spec: the client library's binding of a value to a \<open>?\<close> (the client
  library and the database server are not under src/). What a bound JavaScript value
  becomes in a text column: \<open>undefined\<close> and \<open>null\<close> are sent as NULL, a string as
  itself, a number in decimal, a boolean as 1 or 0.
\<close>

fun bind_text :: "jsval \<Rightarrow> sqlval" where
  "bind_text JUndefined = SqlNull"
| "bind_text JNull = SqlNull"
| "bind_text (JBool b) = SqlText (if b then ''1'' else ''0'')"
| "bind_text (JNum n) = SqlText (show_int n)"
| "bind_text (JStr s) = SqlText s"

text \<open>
  Modelled from the spec: the database server's comparison \<open>WHERE id = ?\<close> of the
  integer key with the bound path segment \<open>req.params.id\<close>, always a string. A string
  of decimal digits denotes its number; any other string selects no row.
\<close>

fun digits_val :: "nat \<Rightarrow> string \<Rightarrow> nat option" where
  "digits_val acc [] = Some acc"
| "digits_val acc (c # cs) =
     (if 48 \<le> (of_char c :: nat) \<and> (of_char c :: nat) \<le> 57
      then digits_val (10 * acc + (of_char c - 48)) cs else None)"

definition path_key :: "string \<Rightarrow> int option" where
  "path_key s = (if s = [] then None else map_option int (digits_val 0 s))"

definition hit :: "string \<Rightarrow> task_row \<Rightarrow> bool" where
  "hit pid r = (path_key pid = Some (t_id r))"

text \<open>
  Modelled from the spec: the database server's answer to any statement sent through
  \<open>pool\<close>, which fails when the server does not answer, when the pool's database does
  not exist, or when the table does not exist.
\<close>

definition pool_error :: "store \<Rightarrow> store_error option" where
  "pool_error s =
     (if \<not> up s then Some ConnectionRefused
      else if \<not> has_db s then Some UnknownDatabase
      else if \<not> has_table s then Some NoSuchTable
      else None)"

text \<open>
  Modelled from the spec: the database server's check of the column constraints of the
  schema, in its strict mode. \<open>title\<close> is \<open>VARCHAR(255) NOT NULL\<close>, \<open>description\<close> is
  a nullable \<open>TEXT\<close> (at most 65535 bytes). Lengths are counted in the characters of the model's strings.
\<close>

definition check_columns :: "sqlval \<Rightarrow> sqlval \<Rightarrow> store_error + (string \<times> string option)" where
  "check_columns tv dv =
     (case tv of
        SqlNull \<Rightarrow> Inl BadNull
      | SqlText t \<Rightarrow>
          if 255 < length t then Inl DataTooLong
          else (case dv of
                  SqlNull \<Rightarrow> Inr (t, None)
                | SqlText d \<Rightarrow> if 65535 < length d then Inl DataTooLong else Inr (t, Some d)))"

text \<open>Modelled from the spec: the database server's execution of \<open>SELECT * FROM tasks\<close>.\<close>

definition select_all :: "store \<Rightarrow> store_error + task_row list" where
  "select_all s = (case pool_error s of Some e \<Rightarrow> Inl e | None \<Rightarrow> Inr (rows s))"

text \<open>
  Modelled from the spec: the database server's execution of
  \<open>SELECT * FROM tasks WHERE id = ?\<close>.
\<close>

definition select_by_id :: "store \<Rightarrow> string \<Rightarrow> store_error + task_row list" where
  "select_by_id s pid =
     (case pool_error s of Some e \<Rightarrow> Inl e | None \<Rightarrow> Inr (filter (hit pid) (rows s)))"

text \<open>
  Modelled from the spec: the database server's execution of
  \<open>INSERT INTO tasks (title, description) VALUES (?, ?)\<close>. The store assigns the next AUTO_INCREMENT value, which never goes back, and the current
  time; the \<open>INT\<close> key ends at 2147483647. A failed statement leaves the store as it was.
\<close>

definition insert_row :: "store \<Rightarrow> jsval \<Rightarrow> jsval \<Rightarrow> store_error + (ok_packet \<times> store)" where
  "insert_row s tv dv =
     (case pool_error s of
        Some e \<Rightarrow> Inl e
      | None \<Rightarrow>
          (case check_columns (bind_text tv) (bind_text dv) of
             Inl e \<Rightarrow> Inl e
           | Inr (t, d) \<Rightarrow>
               if 2147483647 < auto_inc s then Inl OutOfRange
               else Inr (\<lparr>insertId = auto_inc s, affectedRows = 1\<rparr>,
                         s\<lparr>rows := rows s @
                              [\<lparr>t_id = auto_inc s, t_title = t, t_description = d,
                                t_created_at = now s\<rparr>],
                            auto_inc := auto_inc s + 1\<rparr>)))"

text \<open>
  Modelled from the spec: the database server's execution of
  \<open>UPDATE tasks SET title = ?, description = ? WHERE id = ?\<close>.
  \<open>affectedRows\<close> counts the rows the \<open>WHERE\<close> clause matched; the column constraints are
  checked when a row is written, so a statement that matches no row succeeds with 0.
\<close>

definition update_row ::
  "store \<Rightarrow> jsval \<Rightarrow> jsval \<Rightarrow> string \<Rightarrow> store_error + (ok_packet \<times> store)" where
  "update_row s tv dv pid =
     (case pool_error s of
        Some e \<Rightarrow> Inl e
      | None \<Rightarrow>
          if filter (hit pid) (rows s) = [] then Inr (\<lparr>insertId = 0, affectedRows = 0\<rparr>, s)
          else (case check_columns (bind_text tv) (bind_text dv) of
                  Inl e \<Rightarrow> Inl e
                | Inr (t, d) \<Rightarrow>
                    Inr (\<lparr>insertId = 0, affectedRows = length (filter (hit pid) (rows s))\<rparr>,
                         s\<lparr>rows := map (\<lambda>r. if hit pid r
                                              then r\<lparr>t_title := t, t_description := d\<rparr>
                                              else r) (rows s)\<rparr>)))"

text \<open>
  Modelled from the spec: the database server's execution of
  \<open>DELETE FROM tasks WHERE id = ?\<close>.
\<close>

definition delete_row :: "store \<Rightarrow> string \<Rightarrow> store_error + (ok_packet \<times> store)" where
  "delete_row s pid =
     (case pool_error s of
        Some e \<Rightarrow> Inl e
      | None \<Rightarrow>
          Inr (\<lparr>insertId = 0, affectedRows = length (filter (hit pid) (rows s))\<rparr>,
               s\<lparr>rows := filter (\<lambda>r. \<not> hit pid r) (rows s)\<rparr>))"

section \<open>Responses\<close>

text \<open>
  What \<open>res.json\<close> and \<open>res.end\<close> send: nothing, an object built by the handler, one row or
  a list of rows of the table.
\<close>

datatype body =
  Empty
| Fields "(string \<times> jsval) list"
| Task task_row
| Tasks "task_row list"

record response =
  status :: nat
  payload :: body

text \<open>\<open>res.json\<close> of an object literal: serialisation drops the keys whose value is \<open>undefined\<close>.\<close>

definition json :: "(string \<times> jsval) list \<Rightarrow> body" where
  "json kvs = Fields (filter (\<lambda>kv. snd kv \<noteq> JUndefined) kvs)"

definition fail :: "nat \<Rightarrow> string \<Rightarrow> response" where
  "fail code msg = \<lparr>status = code, payload = json [(''error'', JStr msg)]\<rparr>"

text \<open>Whether a response body is an object with a given key; a row is sent with its four columns.\<close>

fun has_key :: "string \<Rightarrow> body \<Rightarrow> bool" where
  "has_key k Empty = False"
| "has_key k (Fields kvs) = (k \<in> set (map fst kvs))"
| "has_key k (Task r) = (k \<in> set [''id'', ''title'', ''description'', ''created_at''])"
| "has_key k (Tasks rs) = False"

section \<open>The request handlers\<close>

text \<open>
  Each handler takes the store and returns the response, the store afterwards and the
  statements it handed to \<open>pool.query\<close>, in order.
\<close>

type_synonym outcome = "response \<times> store \<times> stmt list"

text \<open>\<open>GET /api/health\<close>\<close>

definition get_health :: "store \<Rightarrow> outcome" where
  "get_health s = (\<lparr>status = 200, payload = json [(''status'', JStr ''healthy'')]\<rparr>, s, [])"

text \<open>\<open>GET /api/tasks\<close>\<close>

definition get_tasks :: "store \<Rightarrow> outcome" where
  "get_tasks s =
     (case select_all s of
        Inr rs \<Rightarrow> (\<lparr>status = 200, payload = Tasks rs\<rparr>, s, [Stmt ''SELECT * FROM tasks'' []])
      | Inl e \<Rightarrow> (fail 500 ''Failed to fetch tasks'', s, [Stmt ''SELECT * FROM tasks'' []]))"

text \<open>\<open>GET /api/tasks/:id\<close>\<close>

definition get_task :: "store \<Rightarrow> string \<Rightarrow> outcome" where
  "get_task s pid =
     (case select_by_id s pid of
        Inr rs \<Rightarrow>
          (case rs of
             [] \<Rightarrow> (fail 404 ''Task not found'', s,
                    [Stmt ''SELECT * FROM tasks WHERE id = ?'' [JStr pid]])
           | r # _ \<Rightarrow> (\<lparr>status = 200, payload = Task r\<rparr>, s,
                       [Stmt ''SELECT * FROM tasks WHERE id = ?'' [JStr pid]]))
      | Inl e \<Rightarrow> (fail 500 ''Failed to fetch task'', s,
                  [Stmt ''SELECT * FROM tasks WHERE id = ?'' [JStr pid]]))"

text \<open>\<open>POST /api/tasks\<close>\<close>

definition post_task :: "store \<Rightarrow> req_body \<Rightarrow> outcome" where
  "post_task s b =
     (if \<not> truthy (title b) then (fail 400 ''Title is required'', s, [])
      else
        (case insert_row s (title b) (js_or (description b) (JStr '''')) of
           Inr (result, s') \<Rightarrow>
             (\<lparr>status = 201,
               payload = json [(''id'', JNum (insertId result)),
                               (''title'', title b),
                               (''description'', js_or (description b) (JStr ''''))]\<rparr>,
              s',
              [Stmt ''INSERT INTO tasks (title, description) VALUES (?, ?)''
                 [title b, js_or (description b) (JStr '''')]])
         | Inl e \<Rightarrow>
             (fail 500 ''Failed to create task'', s,
              [Stmt ''INSERT INTO tasks (title, description) VALUES (?, ?)''
                 [title b, js_or (description b) (JStr '''')]])))"

text \<open>\<open>PUT /api/tasks/:id\<close>\<close>

definition put_task :: "store \<Rightarrow> string \<Rightarrow> req_body \<Rightarrow> outcome" where
  "put_task s pid b =
     (case update_row s (title b) (js_or (description b) (JStr '''')) pid of
        Inr (result, s') \<Rightarrow>
          if affectedRows result = 0
          then (fail 404 ''Task not found'', s',
                [Stmt ''UPDATE tasks SET title = ?, description = ? WHERE id = ?''
                   [title b, js_or (description b) (JStr ''''), JStr pid]])
          else (\<lparr>status = 200,
                 payload = json [(''id'', JStr pid),
                                 (''title'', title b),
                                 (''description'', description b)]\<rparr>,
                s',
                [Stmt ''UPDATE tasks SET title = ?, description = ? WHERE id = ?''
                   [title b, js_or (description b) (JStr ''''), JStr pid]])
      | Inl e \<Rightarrow>
          (fail 500 ''Failed to update task'', s,
           [Stmt ''UPDATE tasks SET title = ?, description = ? WHERE id = ?''
              [title b, js_or (description b) (JStr ''''), JStr pid]]))"

text \<open>\<open>DELETE /api/tasks/:id\<close>\<close>

definition delete_task :: "store \<Rightarrow> string \<Rightarrow> outcome" where
  "delete_task s pid =
     (case delete_row s pid of
        Inr (result, s') \<Rightarrow>
          if affectedRows result = 0
          then (fail 404 ''Task not found'', s',
                [Stmt ''DELETE FROM tasks WHERE id = ?'' [JStr pid]])
          else (\<lparr>status = 204, payload = Empty\<rparr>, s',
                [Stmt ''DELETE FROM tasks WHERE id = ?'' [JStr pid]])
      | Inl e \<Rightarrow>
          (fail 500 ''Failed to delete task'', s,
           [Stmt ''DELETE FROM tasks WHERE id = ?'' [JStr pid]]))"

text \<open>The routes of the application.\<close>

datatype request =
  Health
| ListTasks
| GetTask string
| CreateTask req_body
| UpdateTask string req_body
| DeleteTask string

definition handle :: "store \<Rightarrow> request \<Rightarrow> outcome" where
  "handle s r =
     (case r of
        Health \<Rightarrow> get_health s
      | ListTasks \<Rightarrow> get_tasks s
      | GetTask pid \<Rightarrow> get_task s pid
      | CreateTask b \<Rightarrow> post_task s b
      | UpdateTask pid b \<Rightarrow> put_task s pid b
      | DeleteTask pid \<Rightarrow> delete_task s pid)"

section \<open>Start-up and schema initialisation\<close>

text \<open>The environment variables the process reads; unset is \<open>None\<close>.\<close>

record env =
  DB_NAME :: "string option"
  PORT :: "string option"

text \<open>\<open>process.env.X || d\<close>: an unset or empty variable gives the default.\<close>

definition env_or :: "string option \<Rightarrow> string \<Rightarrow> string" where
  "env_or v d = (case v of None \<Rightarrow> d | Some x \<Rightarrow> if x = [] then d else x)"

text \<open>The template literal of the first statement of \<open>initDb\<close>.\<close>

definition create_database_sql :: "env \<Rightarrow> string" where
  "create_database_sql e = ''CREATE DATABASE IF NOT EXISTS '' @ env_or (DB_NAME e) ''tasksdb''"

text \<open>The second statement of \<open>initDb\<close>, its layout reduced to single blanks.\<close>

definition create_table_sql :: string where
  "create_table_sql =
     ''CREATE TABLE IF NOT EXISTS tasks ( id INT AUTO_INCREMENT PRIMARY KEY, '' @
     ''title VARCHAR(255) NOT NULL, description TEXT, '' @
     ''created_at TIMESTAMP DEFAULT CURRENT_TIMESTAMP )''"

text \<open>
  Modelled from the spec: the database server's execution of the statement sent through
  \<open>tempPool\<close>, which selects no database and fails only when the server does not answer. Its text is taken to name the
  database the pool is configured with.
\<close>

definition create_database :: "store \<Rightarrow> string \<Rightarrow> store_error + store" where
  "create_database s sql = (if \<not> up s then Inl ConnectionRefused else Inr (s\<lparr>has_db := True\<rparr>))"

text \<open>
  Modelled from the spec: the database server's execution of \<open>CREATE TABLE IF NOT EXISTS\<close>
  sent through \<open>pool\<close>. A table that
  exists is left alone; a new one is empty and counts from 1.
\<close>

definition create_table :: "store \<Rightarrow> store_error + store" where
  "create_table s =
     (if \<not> up s then Inl ConnectionRefused
      else if \<not> has_db s then Inl UnknownDatabase
      else if has_table s then Inr s
      else Inr (s\<lparr>has_table := True, rows := [], auto_inc := 1\<rparr>))"

text \<open>
  Where the asynchronous \<open>initDb\<close> stands: not called yet, waiting for one of its two
  statements, waiting for the timer set by \<open>setTimeout(initDb, 5000)\<close> (with the time at
  which it is due), or finished.
\<close>

datatype init_pc = Idle | AwaitCreateDb | AwaitCreateTable | Sleeping nat | Ready

datatype log_line = LogRunning string | LogInitError store_error | LogInitOk

text \<open>
  The process: whether the HTTP listener is up, the state of \<open>initDb\<close>, the time in
  milliseconds, the console lines of \<open>app.listen\<close> and \<open>initDb\<close>, every statement sent to
  the store so far, and the store.
\<close>

record server =
  listening :: bool
  pc :: init_pc
  clock :: nat
  console :: "log_line list"
  sent :: "stmt list"
  db :: store

text \<open>A call of \<open>initDb\<close> runs up to its first \<open>await\<close>: the first statement is on its way.\<close>

definition initDb :: "env \<Rightarrow> server \<Rightarrow> server" where
  "initDb e s = s\<lparr>pc := AwaitCreateDb, sent := sent s @ [Stmt (create_database_sql e) []]\<rparr>"

text \<open>The \<open>catch\<close> block of \<open>initDb\<close>.\<close>

definition retry :: "store_error \<Rightarrow> server \<Rightarrow> server" where
  "retry err s = s\<lparr>console := console s @ [LogInitError err], pc := Sleeping (clock s + 5000)\<rparr>"

text \<open>The statement \<open>initDb\<close> waits for settles against the store as it is now.\<close>

definition query_done :: "env \<Rightarrow> server \<Rightarrow> server" where
  "query_done e s =
     (case pc s of
        AwaitCreateDb \<Rightarrow>
          (case create_database (db s) (create_database_sql e) of
             Inl err \<Rightarrow> retry err s
           | Inr st \<Rightarrow> s\<lparr>db := st, pc := AwaitCreateTable,
                         sent := sent s @ [Stmt create_table_sql []]\<rparr>)
      | AwaitCreateTable \<Rightarrow>
          (case create_table (db s) of
             Inl err \<Rightarrow> retry err s
           | Inr st \<Rightarrow> s\<lparr>db := st, pc := Ready, console := console s @ [LogInitOk]\<rparr>)
      | _ \<Rightarrow> s)"

text \<open>The timer calls \<open>initDb\<close> once it is due.\<close>

definition timer_fires :: "env \<Rightarrow> server \<Rightarrow> server" where
  "timer_fires e s =
     (case pc s of
        Sleeping due \<Rightarrow> if due \<le> clock s then initDb e s else s
      | _ \<Rightarrow> s)"

text \<open>\<open>app.listen(PORT, () => { console.log(...); initDb(); })\<close> on a given store.\<close>

definition app_listen :: "env \<Rightarrow> store \<Rightarrow> server" where
  "app_listen e st =
     initDb e \<lparr>listening = True, pc = Idle, clock = 0,
               console = [LogRunning (env_or (PORT e) ''5000'')], sent = [], db = st\<rparr>"

text \<open>
  What can happen to the running process: a request arrives, the statement \<open>initDb\<close>
  waits for settles, the timer fires, time passes, the database server goes away or
  comes back.
\<close>

datatype event = Request request | QueryDone | TimerFires | Tick nat | Outage | Recovery

definition step :: "env \<Rightarrow> server \<Rightarrow> event \<Rightarrow> server \<times> response option" where
  "step e s ev =
     (case ev of
        Request r \<Rightarrow>
          if listening s
          then (case handle (db s) r of
                  (resp, st, q) \<Rightarrow> (s\<lparr>sent := sent s @ q, db := st\<rparr>, Some resp))
          else (s, None)
      | QueryDone \<Rightarrow> (query_done e s, None)
      | TimerFires \<Rightarrow> (timer_fires e s, None)
      | Tick d \<Rightarrow> (s\<lparr>clock := clock s + d, db := (db s)\<lparr>now := now (db s) + d\<rparr>\<rparr>, None)
      | Outage \<Rightarrow> (s\<lparr>db := (db s)\<lparr>up := False\<rparr>\<rparr>, None)
      | Recovery \<Rightarrow> (s\<lparr>db := (db s)\<lparr>up := True\<rparr>\<rparr>, None))"

fun run :: "env \<Rightarrow> server \<Rightarrow> event list \<Rightarrow> server" where
  "run e s [] = s"
| "run e s (ev # evs) = run e (fst (step e s ev)) evs"

text \<open>The \<open>id\<close> field of a 201 response.\<close>

definition created_id :: "response \<Rightarrow> int option" where
  "created_id r =
     (if status r = 201
      then (case payload r of
              Fields kvs \<Rightarrow> (case map_of kvs ''id'' of Some (JNum i) \<Rightarrow> Some i | _ \<Rightarrow> None)
            | _ \<Rightarrow> None)
      else None)"

text \<open>The ids returned by the successful creations of a run, in order.\<close>

fun created_ids :: "env \<Rightarrow> server \<Rightarrow> event list \<Rightarrow> int list" where
  "created_ids e s [] = []"
| "created_ids e s (ev # evs) =
     (case snd (step e s ev) of
        Some r \<Rightarrow> (case created_id r of Some i \<Rightarrow> [i] | None \<Rightarrow> [])
      | None \<Rightarrow> []) @ created_ids e (fst (step e s ev)) evs"

text \<open>
  The keys in the table are below the next AUTO_INCREMENT value, and there are rows only
  when there is a table.
\<close>

definition keys_below :: "store \<Rightarrow> bool" where
  "keys_below s =
     (list_all (\<lambda>r. t_id r < auto_inc s) (rows s) \<and> (has_table s \<or> rows s = []))"

text \<open>The least key a later INSERT can be given: a table created afresh counts from 1.\<close>

definition next_key :: "store \<Rightarrow> int" where
  "next_key s = (if has_table s then auto_inc s else 1)"

text \<open>One failed round of initialisation while the timer runs out, repeated.\<close>

fun failed_rounds :: "nat \<Rightarrow> event list" where
  "failed_rounds 0 = []"
| "failed_rounds (Suc n) = failed_rounds n @ [QueryDone, Tick 5000, TimerFires]"

section \<open>Sample states\<close>

text \<open>An initialised, empty store, stores with one row, and a default environment.\<close>

definition db0 :: store where
  "db0 = \<lparr>up = True, has_db = True, has_table = True, rows = [], auto_inc = 1, now = 0\<rparr>"

definition db1 :: store where
  "db1 = db0\<lparr>rows := [\<lparr>t_id = 1, t_title = ''A'', t_description = Some ''B'', t_created_at = 0\<rparr>],
             auto_inc := 2\<rparr>"

definition env0 :: env where
  "env0 = \<lparr>DB_NAME = None, PORT = None\<rparr>"

definition db1_blank :: store where
  "db1_blank = db0\<lparr>rows := [\<lparr>t_id = 1, t_title = '''', t_description = Some ''B2'', t_created_at = 0\<rparr>],
                   auto_inc := 2\<rparr>"

definition db1_a2 :: store where
  "db1_a2 = db0\<lparr>rows := [\<lparr>t_id = 1, t_title = ''A2'', t_description = Some '''', t_created_at = 0\<rparr>],
                auto_inc := 2\<rparr>"

text \<open>
  Further sample states: a store with no database yet, a store that does not answer, a
  hostile database name, and two short histories.
\<close>

definition db_fresh :: store where
  "db_fresh = \<lparr>up = True, has_db = False, has_table = False, rows = [], auto_inc = 1, now = 0\<rparr>"

definition ev_init_A :: "event list" where
  "ev_init_A = [QueryDone, QueryDone,
                Request (CreateTask \<lparr>title = JStr ''A'', description = JStr ''B''\<rparr>)]"

definition ev_del_C :: "event list" where
  "ev_del_C = [Request (DeleteTask ''1''),
               Request (CreateTask \<lparr>title = JStr ''C'', description = JUndefined\<rparr>)]"

definition db_down :: store where
  "db_down = \<lparr>up = False, has_db = False, has_table = False, rows = [], auto_inc = 1, now = 0\<rparr>"

definition env_inject :: env where
  "env_inject = \<lparr>DB_NAME = Some ''x; DROP DATABASE y'', PORT = None\<rparr>"

section \<open>Auxiliary facts about values and the store\<close>

lemma js_or_defined: "js_or d (JStr s) \<noteq> JUndefined"
  by (cases d) (simp_all add: js_or_def)

lemma truthy_defined: "truthy v \<Longrightarrow> v \<noteq> JUndefined"
  by (cases v) simp_all

lemma insert_row_Inr:
  assumes "insert_row s tv dv = Inr (res, s')"
  obtains t d where "check_columns (bind_text tv) (bind_text dv) = Inr (t, d)"
    and "pool_error s = None" and "auto_inc s \<le> 2147483647"
    and "res = \<lparr>insertId = auto_inc s, affectedRows = 1\<rparr>"
    and "s' = s\<lparr>rows := rows s @ [\<lparr>t_id = auto_inc s, t_title = t, t_description = d,
                                     t_created_at = now s\<rparr>],
                  auto_inc := auto_inc s + 1\<rparr>"
  using assms
  by (auto simp: insert_row_def split: option.splits sum.splits if_splits)

lemma check_columns_title:
  "check_columns tv dv = Inr (t, d) \<Longrightarrow> tv = SqlText t \<and> length t \<le> 255"
  by (auto simp: check_columns_def split: sqlval.splits if_splits)

lemma check_columns_description:
  "check_columns tv dv = Inr (t, d) \<Longrightarrow> dv = (case d of None \<Rightarrow> SqlNull | Some x \<Rightarrow> SqlText x)"
  by (auto simp: check_columns_def split: sqlval.splits if_splits)

lemma no_hit_filter: "(\<forall>r\<in>set rs. \<not> hit pid r) \<Longrightarrow> filter (hit pid) rs = []"
  by (simp add: filter_empty_conv)

lemma no_hit_keep: "(\<forall>r\<in>set rs. \<not> hit pid r) \<Longrightarrow> filter (\<lambda>r. \<not> hit pid r) rs = rs"
  by (induction rs) simp_all

lemma update_row_miss:
  assumes "pool_error s = None" and "\<forall>r\<in>set (rows s). \<not> hit pid r"
  shows "update_row s tv dv pid = Inr (\<lparr>insertId = 0, affectedRows = 0\<rparr>, s)"
  using assms by (simp add: update_row_def no_hit_filter)

lemma delete_row_miss:
  assumes "pool_error s = None" and "\<forall>r\<in>set (rows s). \<not> hit pid r"
  shows "delete_row s pid = Inr (\<lparr>insertId = 0, affectedRows = 0\<rparr>, s)"
  using assms by (simp add: delete_row_def no_hit_filter no_hit_keep)

lemma select_by_id_miss:
  assumes "pool_error s = None" and "\<forall>r\<in>set (rows s). \<not> hit pid r"
  shows "select_by_id s pid = Inr []"
  using assms by (simp add: select_by_id_def no_hit_filter)

lemma delete_row_after:
  assumes "delete_row s pid = Inr (res, s')"
  shows "pool_error s' = None \<and> (\<forall>r\<in>set (rows s'). \<not> hit pid r)"
  using assms by (auto simp: delete_row_def pool_error_def split: option.splits if_splits)

lemma delete_task_store:
  "pool_error s = None \<Longrightarrow>
     delete_row s pid = Inr (\<lparr>insertId = 0, affectedRows = length (filter (hit pid) (rows s))\<rparr>,
                             fst (snd (delete_task s pid)))"
  by (simp add: delete_task_def delete_row_def)

lemma delete_task_miss:
  assumes "pool_error s = None" and "\<forall>r\<in>set (rows s). \<not> hit pid r"
  shows "delete_task s pid =
           (\<lparr>status = 404, payload = Fields [(''error'', JStr ''Task not found'')]\<rparr>, s,
            [Stmt ''DELETE FROM tasks WHERE id = ?'' [JStr pid]])"
  using assms by (simp add: delete_task_def delete_row_miss fail_def json_def)

lemma hit_update [simp]: "hit pid (r\<lparr>t_title := t, t_description := d\<rparr>) = hit pid r"
  by (simp add: hit_def)

lemma update_row_Inr:
  assumes "update_row s tv dv pid = Inr (res, s')" and "x \<in> set (rows s)" and "hit pid x"
  obtains t d where "check_columns (bind_text tv) (bind_text dv) = Inr (t, d)"
    and "pool_error s = None"
    and "res = \<lparr>insertId = 0, affectedRows = length (filter (hit pid) (rows s))\<rparr>"
    and "s' = s\<lparr>rows := map (\<lambda>r. if hit pid r then r\<lparr>t_title := t, t_description := d\<rparr>
                                      else r) (rows s)\<rparr>"
proof -
  from assms(2,3) have ne: "filter (hit pid) (rows s) \<noteq> []"
    by (auto simp: filter_empty_conv)
  with assms(1) that show ?thesis
    by (auto simp: update_row_def split: option.splits sum.splits if_splits)
qed

lemma update_row_hit:
  assumes "update_row s tv dv pid = Inr (res, s')" and "affectedRows res \<noteq> 0"
  shows "\<exists>x\<in>set (rows s). hit pid x"
proof (rule ccontr)
  assume "\<not> (\<exists>x\<in>set (rows s). hit pid x)"
  then have "filter (hit pid) (rows s) = []" by (simp add: filter_empty_conv)
  with assms show False
    by (auto simp: update_row_def split: option.splits sum.splits if_splits)
qed

lemma put_task_200:
  assumes "put_task s pid b = (r, s', q)" and "status r = 200"
  shows "\<exists>res. update_row s (title b) (js_or (description b) (JStr '''')) pid = Inr (res, s')
               \<and> affectedRows res \<noteq> 0"
  using assms
  by (auto simp: put_task_def fail_def split: sum.splits if_splits)

lemma post_task_201:
  assumes "post_task s b = (r, s', q)" and "status r = 201"
  shows "truthy (title b)
         \<and> (\<exists>res. insert_row s (title b) (js_or (description b) (JStr '''')) = Inr (res, s'))"
  using assms
  by (auto simp: post_task_def fail_def split: sum.splits if_splits)

lemma put_task_ok:
  assumes upd: "update_row s (title b) (js_or (description b) (JStr '''')) pid = Inr (res, s')"
    and x: "x \<in> set (rows s)" "hit pid x"
  shows "put_task s pid b =
           (\<lparr>status = 200,
             payload = Fields ([(''id'', JStr pid), (''title'', title b)] @
                               (if description b = JUndefined then []
                                else [(''description'', description b)]))\<rparr>,
            s',
            [Stmt ''UPDATE tasks SET title = ?, description = ? WHERE id = ?''
               [title b, js_or (description b) (JStr ''''), JStr pid]])"
proof -
  from upd x obtain t d
    where cc: "check_columns (bind_text (title b))
                 (bind_text (js_or (description b) (JStr ''''))) = Inr (t, d)"
      and res: "res = \<lparr>insertId = 0, affectedRows = length (filter (hit pid) (rows s))\<rparr>"
    by (rule update_row_Inr)
  from x have "filter (hit pid) (rows s) \<noteq> []" by (auto simp: filter_empty_conv)
  then have n: "affectedRows res \<noteq> 0" by (simp add: res)
  from check_columns_title [OF cc] have "title b \<noteq> JUndefined" by auto
  with upd n show ?thesis by (simp add: put_task_def json_def)
qed

lemma stored_after_update:
  assumes upd: "update_row s tv dv pid = Inr (res, s')"
    and x: "x \<in> set (rows s)" "hit pid x"
  shows "map t_id (rows s') = map t_id (rows s)
         \<and> (\<exists>y\<in>set (rows s'). hit pid y)
         \<and> (\<forall>y\<in>set (rows s'). hit pid y \<longrightarrow>
                SqlText (t_title y) = bind_text tv
                \<and> (case t_description y of None \<Rightarrow> SqlNull | Some z \<Rightarrow> SqlText z) = bind_text dv)"
proof -
  from upd x obtain t d
    where cc: "check_columns (bind_text tv) (bind_text dv) = Inr (t, d)"
      and s': "s' = s\<lparr>rows := map (\<lambda>r. if hit pid r then r\<lparr>t_title := t, t_description := d\<rparr>
                                      else r) (rows s)\<rparr>"
    by (rule update_row_Inr)
  have 1: "map t_id (rows s') = map t_id (rows s)" by (simp add: s' comp_def if_distrib)
  from x have 2: "\<exists>y\<in>set (rows s'). hit pid y"
    by (auto simp: s' intro!: bexI [of _ "x\<lparr>t_title := t, t_description := d\<rparr>"] image_eqI [of _ _ x])
  from check_columns_title [OF cc] check_columns_description [OF cc]
  have 3: "\<forall>y\<in>set (rows s'). hit pid y \<longrightarrow>
                SqlText (t_title y) = bind_text tv
                \<and> (case t_description y of None \<Rightarrow> SqlNull | Some z \<Rightarrow> SqlText z) = bind_text dv"
    by (auto simp: s')
  from 1 2 3 show ?thesis by blast
qed

lemma hit_1_db1: "\<lparr>t_id = 1, t_title = ''A'', t_description = Some ''B'', t_created_at = 0\<rparr> \<in> set (rows db1)
  \<and> hit ''1'' \<lparr>t_id = 1, t_title = ''A'', t_description = Some ''B'', t_created_at = 0\<rparr>"
  by (simp add: db1_def db0_def hit_def path_key_def)

lemma post_A_db1:
  "post_task db1 \<lparr>title = JStr ''A2'', description = JUndefined\<rparr> =
     (\<lparr>status = 201,
       payload = Fields [(''id'', JNum 2), (''title'', JStr ''A2''), (''description'', JStr '''')]\<rparr>,
      db0\<lparr>rows := [\<lparr>t_id = 1, t_title = ''A'', t_description = Some ''B'', t_created_at = 0\<rparr>,
                   \<lparr>t_id = 2, t_title = ''A2'', t_description = Some '''', t_created_at = 0\<rparr>],
          auto_inc := 3\<rparr>,
      [Stmt ''INSERT INTO tasks (title, description) VALUES (?, ?)'' [JStr ''A2'', JStr '''']])"
  by (simp add: post_task_def insert_row_def pool_error_def check_columns_def js_or_def
      json_def db1_def db0_def)

lemma put_A2_db1:
  "put_task db1 ''1'' \<lparr>title = JStr ''A2'', description = JUndefined\<rparr> =
     (\<lparr>status = 200, payload = Fields [(''id'', JStr ''1''), (''title'', JStr ''A2'')]\<rparr>,
      db1_a2,
      [Stmt ''UPDATE tasks SET title = ?, description = ? WHERE id = ?''
         [JStr ''A2'', JStr '''', JStr ''1'']])"
  by (simp add: put_task_def update_row_def pool_error_def check_columns_def js_or_def
      json_def db1_def db0_def db1_a2_def hit_def path_key_def)

section \<open>Creating a task\<close>

text \<open>
  C1, as the code has it. When the title is truthy and the store executes the INSERT, the
  response is 201 and its body has exactly the keys \<open>id\<close> (the store-assigned
  \<open>insertId\<close>), \<open>title\<close> (as sent) and \<open>description\<close> (as sent, or the empty string when
  absent or falsy). The store appends one row with that id, the bound title and its
  current time as \<open>created_at\<close>; the response does not carry \<open>created_at\<close>.
\<close>

theorem post_task_created:
  assumes "truthy (title b)"
    and "insert_row s (title b) (js_or (description b) (JStr '''')) = Inr (res, s')"
  shows "post_task s b =
           (\<lparr>status = 201,
             payload = Fields [(''id'', JNum (auto_inc s)), (''title'', title b),
                               (''description'', js_or (description b) (JStr ''''))]\<rparr>,
            s',
            [Stmt ''INSERT INTO tasks (title, description) VALUES (?, ?)''
               [title b, js_or (description b) (JStr '''')]])
         \<and> \<not> has_key ''created_at'' (payload (fst (post_task s b)))
         \<and> butlast (rows s') = rows s
         \<and> t_id (last (rows s')) = auto_inc s
         \<and> SqlText (t_title (last (rows s'))) = bind_text (title b)
         \<and> t_created_at (last (rows s')) = now s"
proof -
  from assms(2) obtain t d
    where cc: "check_columns (bind_text (title b))
                 (bind_text (js_or (description b) (JStr ''''))) = Inr (t, d)"
      and res: "res = \<lparr>insertId = auto_inc s, affectedRows = 1\<rparr>"
      and s': "s' = s\<lparr>rows := rows s @ [\<lparr>t_id = auto_inc s, t_title = t, t_description = d,
                                          t_created_at = now s\<rparr>],
                       auto_inc := auto_inc s + 1\<rparr>"
    by (rule insert_row_Inr)
  have eq: "post_task s b =
           (\<lparr>status = 201,
             payload = Fields [(''id'', JNum (auto_inc s)), (''title'', title b),
                               (''description'', js_or (description b) (JStr ''''))]\<rparr>,
            s',
            [Stmt ''INSERT INTO tasks (title, description) VALUES (?, ?)''
               [title b, js_or (description b) (JStr '''')]])"
    using assms res truthy_defined [OF assms(1)] js_or_defined [of "description b" "''''"]
    by (simp add: post_task_def json_def)
  from check_columns_title [OF cc] have "bind_text (title b) = SqlText t" by simp
  then show ?thesis by (simp add: eq s')
qed

text \<open>The scenario of the specification: \<open>POST {title: "A", description: "B"}\<close> on an empty table.\<close>

theorem post_task_created_witness:
  "truthy (title \<lparr>title = JStr ''A'', description = JStr ''B''\<rparr>)
   \<and> post_task db0 \<lparr>title = JStr ''A'', description = JStr ''B''\<rparr> =
       (\<lparr>status = 201,
         payload = Fields [(''id'', JNum 1), (''title'', JStr ''A''), (''description'', JStr ''B'')]\<rparr>,
        db1,
        [Stmt ''INSERT INTO tasks (title, description) VALUES (?, ?)'' [JStr ''A'', JStr ''B'']])"
proof -
  have ins: "insert_row db0 (title \<lparr>title = JStr ''A'', description = JStr ''B''\<rparr>)
               (js_or (description \<lparr>title = JStr ''A'', description = JStr ''B''\<rparr>) (JStr '''')) =
             Inr (\<lparr>insertId = 1, affectedRows = 1\<rparr>, db1)"
    by (simp add: insert_row_def pool_error_def check_columns_def js_or_def db0_def db1_def)
  have t: "truthy (title \<lparr>title = JStr ''A'', description = JStr ''B''\<rparr>)" by simp
  from post_task_created [OF t ins] show ?thesis
    by (simp add: js_or_def db0_def)
qed

text \<open>
  C1 as the specification words it fails: the 201 response to that request has the three
  keys above and no \<open>created_at\<close>, although the stored row has one.
\<close>

theorem post_task_created_at_counterexample:
  "fst (post_task db0 \<lparr>title = JStr ''A'', description = JStr ''B''\<rparr>) =
     \<lparr>status = 201,
      payload = Fields [(''id'', JNum 1), (''title'', JStr ''A''), (''description'', JStr ''B'')]\<rparr>
   \<and> \<not> has_key ''created_at''
         (payload (fst (post_task db0 \<lparr>title = JStr ''A'', description = JStr ''B''\<rparr>)))"
  by (simp add: post_task_def insert_row_def pool_error_def check_columns_def js_or_def
      json_def db0_def)

text \<open>
  C2, as the code has it. When the title is falsy (absent, \<open>null\<close>, the empty string,
  \<open>false\<close> or 0), the response is 400 with \<open>{"error": "Title is required"}\<close>, no
  statement is handed to the pool and the store is the one the request found. Every
  other title, a string of blanks included, passes the check: the INSERT is handed to
  the pool and the response is not 400.
\<close>

theorem post_task_falsy_title:
  "(\<not> truthy (title b) \<longrightarrow>
      post_task s b =
        (\<lparr>status = 400, payload = Fields [(''error'', JStr ''Title is required'')]\<rparr>, s, []))
   \<and> (truthy (title b) \<longrightarrow>
      status (fst (post_task s b)) \<noteq> 400
      \<and> snd (snd (post_task s b)) =
          [Stmt ''INSERT INTO tasks (title, description) VALUES (?, ?)''
             [title b, js_or (description b) (JStr '''')]])
   \<and> truthy (JStr (replicate (Suc n) CHR '' ''))"
  by (auto simp: post_task_def fail_def json_def split: sum.splits)

theorem post_task_falsy_title_witness:
  "\<not> truthy (title \<lparr>title = JStr '''', description = JStr ''B''\<rparr>)
   \<and> post_task db1 \<lparr>title = JStr '''', description = JStr ''B''\<rparr> =
       (\<lparr>status = 400, payload = Fields [(''error'', JStr ''Title is required'')]\<rparr>, db1, [])
   \<and> truthy (title \<lparr>title = JStr '' '', description = JStr ''B''\<rparr>)
   \<and> status (fst (post_task db1 \<lparr>title = JStr '' '', description = JStr ''B''\<rparr>)) \<noteq> 400"
  using post_task_falsy_title [of "\<lparr>title = JStr '''', description = JStr ''B''\<rparr>" db1]
    post_task_falsy_title [of "\<lparr>title = JStr '' '', description = JStr ''B''\<rparr>" db1]
  by simp

text \<open>
  C2 as the specification words it fails for a title of blanks: a one-blank title is
  truthy, the response is 201 and the table has one row more.
\<close>

theorem post_task_blank_title_counterexample:
  "status (fst (post_task db0 \<lparr>title = JStr '' '', description = JUndefined\<rparr>)) = 201
   \<and> length (rows (fst (snd (post_task db0 \<lparr>title = JStr '' '', description = JUndefined\<rparr>))))
       = Suc (length (rows db0))"
  by (simp add: post_task_def insert_row_def pool_error_def check_columns_def js_or_def
      json_def db0_def)

section \<open>Requests for an id that is not in the table\<close>

text \<open>
  C3. When the store answers and no row has the key the path segment denotes, each of
  GET, PUT and DELETE responds 404 with \<open>{"error": "Task not found"}\<close> and leaves the
  store as it was. PUT and DELETE hand exactly one statement to the pool, the UPDATE or
  the DELETE itself, whose \<open>affectedRows\<close> is 0; no SELECT precedes it. After any
  DELETE of an id on an answering store, a second and a third DELETE of that id both
  respond 404.
\<close>

theorem missing_id_not_found:
  assumes "pool_error s = None" and "\<forall>r\<in>set (rows s). \<not> hit pid r"
  shows "get_task s pid =
           (\<lparr>status = 404, payload = Fields [(''error'', JStr ''Task not found'')]\<rparr>, s,
            [Stmt ''SELECT * FROM tasks WHERE id = ?'' [JStr pid]])
       \<and> update_row s (title b) (js_or (description b) (JStr '''')) pid =
           Inr (\<lparr>insertId = 0, affectedRows = 0\<rparr>, s)
       \<and> put_task s pid b =
           (\<lparr>status = 404, payload = Fields [(''error'', JStr ''Task not found'')]\<rparr>, s,
            [Stmt ''UPDATE tasks SET title = ?, description = ? WHERE id = ?''
               [title b, js_or (description b) (JStr ''''), JStr pid]])
       \<and> delete_row s pid = Inr (\<lparr>insertId = 0, affectedRows = 0\<rparr>, s)
       \<and> delete_task s pid =
           (\<lparr>status = 404, payload = Fields [(''error'', JStr ''Task not found'')]\<rparr>, s,
            [Stmt ''DELETE FROM tasks WHERE id = ?'' [JStr pid]])
       \<and> (pool_error s0 = None \<longrightarrow>
           status (fst (delete_task (fst (snd (delete_task s0 pid0))) pid0)) = 404
           \<and> status (fst (delete_task
                 (fst (snd (delete_task (fst (snd (delete_task s0 pid0))) pid0))) pid0)) = 404)"
proof (intro conjI impI)
  show "get_task s pid =
           (\<lparr>status = 404, payload = Fields [(''error'', JStr ''Task not found'')]\<rparr>, s,
            [Stmt ''SELECT * FROM tasks WHERE id = ?'' [JStr pid]])"
    by (simp add: get_task_def select_by_id_miss [OF assms] fail_def json_def)
  show "update_row s (title b) (js_or (description b) (JStr '''')) pid =
           Inr (\<lparr>insertId = 0, affectedRows = 0\<rparr>, s)"
    by (rule update_row_miss [OF assms])
  show "put_task s pid b =
           (\<lparr>status = 404, payload = Fields [(''error'', JStr ''Task not found'')]\<rparr>, s,
            [Stmt ''UPDATE tasks SET title = ?, description = ? WHERE id = ?''
               [title b, js_or (description b) (JStr ''''), JStr pid]])"
    by (simp add: put_task_def update_row_miss [OF assms] fail_def json_def)
  show "delete_row s pid = Inr (\<lparr>insertId = 0, affectedRows = 0\<rparr>, s)"
    by (rule delete_row_miss [OF assms])
  show "delete_task s pid =
           (\<lparr>status = 404, payload = Fields [(''error'', JStr ''Task not found'')]\<rparr>, s,
            [Stmt ''DELETE FROM tasks WHERE id = ?'' [JStr pid]])"
    by (rule delete_task_miss [OF assms])
next
  assume up0: "pool_error s0 = None"
  define s1 where "s1 = fst (snd (delete_task s0 pid0))"
  from delete_row_after [OF delete_task_store [OF up0]]
  have 1: "pool_error s1 = None" "\<forall>r\<in>set (rows s1). \<not> hit pid0 r"
    by (simp_all add: s1_def)
  from delete_task_miss [OF 1]
  show "status (fst (delete_task (fst (snd (delete_task s0 pid0))) pid0)) = 404"
    by (simp add: s1_def [symmetric])
  from delete_task_miss [OF 1]
  show "status (fst (delete_task
                 (fst (snd (delete_task (fst (snd (delete_task s0 pid0))) pid0))) pid0)) = 404"
    by (simp add: s1_def [symmetric])
qed

text \<open>On the one-row table: id 2 is not there, and id 1 is deleted three times.\<close>

theorem missing_id_not_found_witness:
  "pool_error db1 = None \<and> filter (hit ''2'') (rows db1) = []
   \<and> get_task db1 ''2'' =
         (\<lparr>status = 404, payload = Fields [(''error'', JStr ''Task not found'')]\<rparr>, db1,
          [Stmt ''SELECT * FROM tasks WHERE id = ?'' [JStr ''2'']])
   \<and> put_task db1 ''2'' \<lparr>title = JStr ''X'', description = JStr ''Y''\<rparr> =
         (\<lparr>status = 404, payload = Fields [(''error'', JStr ''Task not found'')]\<rparr>, db1,
          [Stmt ''UPDATE tasks SET title = ?, description = ? WHERE id = ?''
             [JStr ''X'', JStr ''Y'', JStr ''2'']])
   \<and> delete_task db1 ''2'' =
         (\<lparr>status = 404, payload = Fields [(''error'', JStr ''Task not found'')]\<rparr>, db1,
          [Stmt ''DELETE FROM tasks WHERE id = ?'' [JStr ''2'']])
   \<and> status (fst (delete_task db1 ''1'')) = 204
   \<and> status (fst (delete_task (fst (snd (delete_task db1 ''1''))) ''1'')) = 404
   \<and> status (fst (delete_task
           (fst (snd (delete_task (fst (snd (delete_task db1 ''1''))) ''1''))) ''1'')) = 404"
proof -
  have a: "pool_error db1 = None" by (simp add: pool_error_def db1_def db0_def)
  have b: "\<forall>r\<in>set (rows db1). \<not> hit ''2'' r"
    by (simp add: db1_def db0_def hit_def path_key_def)
  have c: "status (fst (delete_task db1 ''1'')) = 204"
    by (simp add: delete_task_def delete_row_def pool_error_def db1_def db0_def hit_def
        path_key_def)
  from missing_id_not_found [OF a b, of "\<lparr>title = JStr ''X'', description = JStr ''Y''\<rparr>" db1 "''1''"]
  show ?thesis using a b c by (simp add: js_or_def filter_empty_conv)
qed

section \<open>Updating a task\<close>

text \<open>
  C4. PUT does not look at the title before the UPDATE. For a row that exists and an
  empty-string title, when the store executes the UPDATE the response is 200, the matched
  rows keep their keys and now have the empty title; the same body sent to POST is
  refused with 400.
\<close>

theorem put_task_blank_title:
  assumes "x \<in> set (rows s)" and "hit pid x" and "title b = JStr ''''"
    and "update_row s (title b) (js_or (description b) (JStr '''')) pid = Inr (res, s')"
  shows "put_task s pid b =
           (\<lparr>status = 200,
             payload = Fields ([(''id'', JStr pid), (''title'', JStr '''')] @
                               (if description b = JUndefined then []
                                else [(''description'', description b)]))\<rparr>,
            s',
            [Stmt ''UPDATE tasks SET title = ?, description = ? WHERE id = ?''
               [JStr '''', js_or (description b) (JStr ''''), JStr pid]])
         \<and> map t_id (rows s') = map t_id (rows s)
         \<and> (\<exists>y\<in>set (rows s'). hit pid y)
         \<and> (\<forall>y\<in>set (rows s'). hit pid y \<longrightarrow> t_title y = '''')
         \<and> status (fst (post_task s b)) = 400"
proof -
  from put_task_ok [OF assms(4,1,2)] assms(3)
  have 1: "put_task s pid b =
           (\<lparr>status = 200,
             payload = Fields ([(''id'', JStr pid), (''title'', JStr '''')] @
                               (if description b = JUndefined then []
                                else [(''description'', description b)]))\<rparr>,
            s',
            [Stmt ''UPDATE tasks SET title = ?, description = ? WHERE id = ?''
               [JStr '''', js_or (description b) (JStr ''''), JStr pid]])"
    by simp
  from stored_after_update [OF assms(4,1,2)] assms(3)
  have 2: "map t_id (rows s') = map t_id (rows s)"
    and 3: "\<exists>y\<in>set (rows s'). hit pid y"
    and 4: "\<forall>y\<in>set (rows s'). hit pid y \<longrightarrow> t_title y = ''''"
    by simp_all
  from assms(3) have 5: "status (fst (post_task s b)) = 400"
    by (simp add: post_task_def fail_def)
  from 1 2 3 4 5 show ?thesis by blast
qed

theorem put_task_blank_title_witness:
  "put_task db1 ''1'' \<lparr>title = JStr '''', description = JStr ''B2''\<rparr> =
     (\<lparr>status = 200,
       payload = Fields [(''id'', JStr ''1''), (''title'', JStr ''''), (''description'', JStr ''B2'')]\<rparr>,
      db1_blank,
      [Stmt ''UPDATE tasks SET title = ?, description = ? WHERE id = ?''
         [JStr '''', JStr ''B2'', JStr ''1'']])
   \<and> map t_title (filter (hit ''1'') (rows db1_blank)) = ['''']"
proof -
  have upd: "update_row db1 (title \<lparr>title = JStr '''', description = JStr ''B2''\<rparr>)
               (js_or (description \<lparr>title = JStr '''', description = JStr ''B2''\<rparr>) (JStr '''')) ''1'' =
             Inr (\<lparr>insertId = 0, affectedRows = 1\<rparr>, db1_blank)"
    by (simp add: update_row_def pool_error_def check_columns_def js_or_def db1_def db0_def
        db1_blank_def hit_def path_key_def)
  have blank: "map t_title (filter (hit ''1'') (rows db1_blank)) = ['''']"
    by (simp add: db1_blank_def db0_def hit_def path_key_def)
  from put_task_blank_title [OF conjunct1 [OF hit_1_db1] conjunct2 [OF hit_1_db1] _ upd]
  show ?thesis by (simp add: js_or_def blank)
qed

text \<open>
  C6. When the body has no \<open>description\<close>, the value bound in the INSERT and in the UPDATE
  is the empty string, and the row a successful create appends, and every row a
  successful update matches, has the empty string, not NULL, in its \<open>description\<close> column.
\<close>

theorem omitted_description_stored_empty:
  assumes "description b = JUndefined"
  shows "(post_task s b = (r, s', q) \<and> status r = 201 \<longrightarrow>
            q = [Stmt ''INSERT INTO tasks (title, description) VALUES (?, ?)'' [title b, JStr '''']]
            \<and> butlast (rows s') = rows s
            \<and> t_description (last (rows s')) = Some '''')
       \<and> (put_task s pid b = (r2, s2, q2) \<and> status r2 = 200 \<longrightarrow>
            q2 = [Stmt ''UPDATE tasks SET title = ?, description = ? WHERE id = ?''
                    [title b, JStr '''', JStr pid]]
            \<and> (\<exists>y\<in>set (rows s2). hit pid y)
            \<and> (\<forall>y\<in>set (rows s2). hit pid y \<longrightarrow> t_description y = Some ''''))"
proof (intro conjI impI)
  assume a: "post_task s b = (r, s', q) \<and> status r = 201"
  with post_task_201 [of s b r s' q] obtain res
    where t: "truthy (title b)"
      and ins: "insert_row s (title b) (js_or (description b) (JStr '''')) = Inr (res, s')"
    by blast
  from ins obtain t d
    where cc: "check_columns (bind_text (title b))
                 (bind_text (js_or (description b) (JStr ''''))) = Inr (t, d)"
      and s': "s' = s\<lparr>rows := rows s @ [\<lparr>t_id = auto_inc s, t_title = t, t_description = d,
                                          t_created_at = now s\<rparr>],
                       auto_inc := auto_inc s + 1\<rparr>"
    by (rule insert_row_Inr)
  from check_columns_description [OF cc] assms have d: "d = Some ''''"
    by (simp add: js_or_def split: option.splits)
  from a ins assms t
  show "q = [Stmt ''INSERT INTO tasks (title, description) VALUES (?, ?)'' [title b, JStr '''']]"
    by (auto simp: post_task_def js_or_def split: if_splits)
  show "butlast (rows s') = rows s" by (simp add: s')
  show "t_description (last (rows s')) = Some ''''" by (simp add: s' d)
next
  assume a: "put_task s pid b = (r2, s2, q2) \<and> status r2 = 200"
  with put_task_200 [of s pid b r2 s2 q2] obtain res
    where upd: "update_row s (title b) (js_or (description b) (JStr '''')) pid = Inr (res, s2)"
      and n: "affectedRows res \<noteq> 0"
    by blast
  from update_row_hit [OF upd n] obtain x where x: "x \<in> set (rows s)" "hit pid x" by blast
  from a upd assms
  show "q2 = [Stmt ''UPDATE tasks SET title = ?, description = ? WHERE id = ?''
                    [title b, JStr '''', JStr pid]]"
    by (auto simp: put_task_def js_or_def split: if_splits)
  from stored_after_update [OF upd x]
  show "\<exists>y\<in>set (rows s2). hit pid y" by blast
  from stored_after_update [OF upd x] assms
  show "\<forall>y\<in>set (rows s2). hit pid y \<longrightarrow> t_description y = Some ''''"
    by (auto simp: js_or_def split: option.splits)
qed

theorem omitted_description_stored_empty_witness:
  "description \<lparr>title = JStr ''A2'', description = JUndefined\<rparr> = JUndefined
   \<and> status (fst (post_task db1 \<lparr>title = JStr ''A2'', description = JUndefined\<rparr>)) = 201
   \<and> t_description
         (last (rows (fst (snd (post_task db1 \<lparr>title = JStr ''A2'', description = JUndefined\<rparr>)))))
       = Some ''''
   \<and> status (fst (put_task db1 ''1'' \<lparr>title = JStr ''A2'', description = JUndefined\<rparr>)) = 200
   \<and> map t_description
         (filter (hit ''1'')
            (rows (fst (snd (put_task db1 ''1'' \<lparr>title = JStr ''A2'', description = JUndefined\<rparr>)))))
       = [Some '''']"
proof -
  have d: "description \<lparr>title = JStr ''A2'', description = JUndefined\<rparr> = JUndefined" by simp
  from omitted_description_stored_empty [OF d,
      of db1 "fst (post_task db1 \<lparr>title = JStr ''A2'', description = JUndefined\<rparr>)"
         "fst (snd (post_task db1 \<lparr>title = JStr ''A2'', description = JUndefined\<rparr>))"
         "snd (snd (post_task db1 \<lparr>title = JStr ''A2'', description = JUndefined\<rparr>))"
         "''1''"
         "fst (put_task db1 ''1'' \<lparr>title = JStr ''A2'', description = JUndefined\<rparr>)"
         "fst (snd (put_task db1 ''1'' \<lparr>title = JStr ''A2'', description = JUndefined\<rparr>))"
         "snd (snd (put_task db1 ''1'' \<lparr>title = JStr ''A2'', description = JUndefined\<rparr>))"]
  moreover have "map t_description (filter (hit ''1'') (rows db1_a2)) = [Some '''']"
    by (simp add: db1_a2_def db0_def hit_def path_key_def)
  ultimately show ?thesis
    by (simp add: post_A_db1 put_A2_db1)
qed

text \<open>
  C8. The body of a 200 response to PUT is built from the request alone: \<open>id\<close> is the
  path segment, a string, while the matched row holds the integer it denotes; \<open>title\<close>
  is the value sent; \<open>description\<close> is the value sent and is absent when the request had
  none, although the row then stores the empty string; \<open>created_at\<close> is not there.
\<close>

theorem put_task_response_echo:
  assumes "put_task s pid b = (r, s', q)" and "status r = 200"
  shows "payload r = Fields ([(''id'', JStr pid), (''title'', title b)] @
                             (if description b = JUndefined then []
                              else [(''description'', description b)]))
         \<and> \<not> has_key ''created_at'' (payload r)
         \<and> (\<exists>y\<in>set (rows s'). path_key pid = Some (t_id y))
         \<and> (description b = JUndefined \<longrightarrow>
               \<not> has_key ''description'' (payload r)
               \<and> (\<forall>y\<in>set (rows s'). hit pid y \<longrightarrow> t_description y = Some ''''))"
proof -
  from put_task_200 [OF assms] obtain res
    where upd: "update_row s (title b) (js_or (description b) (JStr '''')) pid = Inr (res, s')"
      and n: "affectedRows res \<noteq> 0"
    by blast
  from update_row_hit [OF upd n] obtain x where x: "x \<in> set (rows s)" "hit pid x" by blast
  from put_task_ok [OF upd x] assms(1)
  have 1: "payload r = Fields ([(''id'', JStr pid), (''title'', title b)] @
                             (if description b = JUndefined then []
                              else [(''description'', description b)]))"
    by auto
  then have 2: "\<not> has_key ''created_at'' (payload r)" by simp
  from stored_after_update [OF upd x]
  have 3: "\<exists>y\<in>set (rows s'). path_key pid = Some (t_id y)" by (auto simp: hit_def)
  have 4: "description b = JUndefined \<longrightarrow>
               \<not> has_key ''description'' (payload r)
               \<and> (\<forall>y\<in>set (rows s'). hit pid y \<longrightarrow> t_description y = Some '''')"
  proof
    assume d: "description b = JUndefined"
    from stored_after_update [OF upd x] d
    have "\<forall>y\<in>set (rows s'). hit pid y \<longrightarrow> t_description y = Some ''''"
      by (auto simp: js_or_def split: option.splits)
    with 1 d show "\<not> has_key ''description'' (payload r)
               \<and> (\<forall>y\<in>set (rows s'). hit pid y \<longrightarrow> t_description y = Some '''')"
      by simp
  qed
  from 1 2 3 4 show ?thesis by blast
qed

theorem put_task_response_echo_witness:
  "put_task db1 ''1'' \<lparr>title = JStr ''A2'', description = JUndefined\<rparr> =
     (\<lparr>status = 200, payload = Fields [(''id'', JStr ''1''), (''title'', JStr ''A2'')]\<rparr>,
      db1_a2,
      [Stmt ''UPDATE tasks SET title = ?, description = ? WHERE id = ?''
         [JStr ''A2'', JStr '''', JStr ''1'']])
   \<and> rows db1_a2 = [\<lparr>t_id = 1, t_title = ''A2'', t_description = Some '''', t_created_at = 0\<rparr>]
   \<and> \<not> has_key ''created_at'' (Fields [(''id'', JStr ''1''), (''title'', JStr ''A2'')])
   \<and> \<not> has_key ''description'' (Fields [(''id'', JStr ''1''), (''title'', JStr ''A2'')])"
proof -
  have st: "status \<lparr>status = 200, payload = Fields [(''id'', JStr ''1''), (''title'', JStr ''A2'')]\<rparr> = 200"
    by simp
  from put_task_response_echo [OF put_A2_db1 st]
  show ?thesis by (simp add: put_A2_db1 db1_a2_def db0_def)
qed

text \<open>
  C9. For a row that exists, a PUT whose body has no \<open>title\<close> responds 500 with
  \<open>{"error": "Failed to update task"}\<close> and leaves the store as it was; on an answering
  store the UPDATE is refused because the \<open>NOT NULL\<close> column \<open>title\<close> would become NULL.
\<close>

theorem put_task_missing_title:
  assumes "x \<in> set (rows s)" and "hit pid x" and "title b = JUndefined"
  shows "put_task s pid b =
           (\<lparr>status = 500, payload = Fields [(''error'', JStr ''Failed to update task'')]\<rparr>, s,
            [Stmt ''UPDATE tasks SET title = ?, description = ? WHERE id = ?''
               [JUndefined, js_or (description b) (JStr ''''), JStr pid]])
         \<and> (pool_error s = None \<longrightarrow>
               update_row s (title b) (js_or (description b) (JStr '''')) pid = Inl BadNull)"
proof -
  from assms(1,2) have ne: "filter (hit pid) (rows s) \<noteq> []"
    by (auto simp: filter_empty_conv)
  have cc: "check_columns (bind_text JUndefined) dv = Inl BadNull" for dv
    by (simp add: check_columns_def)
  from ne assms(3) cc show ?thesis
    by (simp add: put_task_def update_row_def fail_def json_def split: option.splits)
qed

theorem put_task_missing_title_witness:
  "pool_error db1 = None
   \<and> put_task db1 ''1'' \<lparr>title = JUndefined, description = JStr ''B2''\<rparr> =
       (\<lparr>status = 500, payload = Fields [(''error'', JStr ''Failed to update task'')]\<rparr>, db1,
        [Stmt ''UPDATE tasks SET title = ?, description = ? WHERE id = ?''
           [JUndefined, JStr ''B2'', JStr ''1'']])
   \<and> update_row db1 JUndefined (JStr ''B2'') ''1'' = Inl BadNull"
proof -
  have a: "pool_error db1 = None" by (simp add: pool_error_def db1_def db0_def)
  from put_task_missing_title [OF conjunct1 [OF hit_1_db1] conjunct2 [OF hit_1_db1],
      of "\<lparr>title = JUndefined, description = JStr ''B2''\<rparr>"]
  show ?thesis using a by (simp add: js_or_def)
qed

section \<open>Allocation of keys\<close>

lemma insert_row_grows:
  assumes "insert_row s tv dv = Inr (res, s')"
  shows "has_table s \<and> has_table s' \<and> insertId res = auto_inc s \<and> auto_inc s' = auto_inc s + 1
         \<and> (keys_below s \<longrightarrow> keys_below s')"
proof -
  from assms obtain t d
    where p: "pool_error s = None"
      and res: "res = \<lparr>insertId = auto_inc s, affectedRows = 1\<rparr>"
      and s': "s' = s\<lparr>rows := rows s @ [\<lparr>t_id = auto_inc s, t_title = t, t_description = d,
                                          t_created_at = now s\<rparr>],
                       auto_inc := auto_inc s + 1\<rparr>"
    by (rule insert_row_Inr)
  from p have "has_table s" by (simp add: pool_error_def split: if_splits)
  moreover from this have "keys_below s \<longrightarrow> keys_below s'"
    by (auto simp: keys_below_def s' list_all_iff)
  ultimately show ?thesis by (simp add: res s')
qed

lemma update_row_same:
  assumes "update_row s tv dv pid = Inr (res, s')"
  shows "has_table s' = has_table s \<and> auto_inc s' = auto_inc s
         \<and> (keys_below s \<longrightarrow> keys_below s')"
  using assms
  by (auto simp: update_row_def keys_below_def list_all_iff
      split: option.splits sum.splits if_splits)

lemma delete_row_same:
  assumes "delete_row s pid = Inr (res, s')"
  shows "has_table s' = has_table s \<and> auto_inc s' = auto_inc s
         \<and> (keys_below s \<longrightarrow> keys_below s')"
  using assms
  by (auto simp: delete_row_def keys_below_def list_all_iff pool_error_def
      split: option.splits if_splits)

text \<open>What a request does to the table, and which response can carry a new key.\<close>

lemma handle_grows:
  assumes "handle s r = (resp, s', q)"
  shows "has_table s' = has_table s \<and> auto_inc s \<le> auto_inc s'
         \<and> (keys_below s \<longrightarrow> keys_below s')
         \<and> (\<forall>i. created_id resp = Some i \<longrightarrow>
               has_table s \<and> i = auto_inc s \<and> auto_inc s' = i + 1)"
proof (cases r)
  case Health
  with assms show ?thesis by (auto simp: handle_def get_health_def created_id_def fail_def)
next
  case ListTasks
  with assms show ?thesis
    by (auto simp: handle_def get_tasks_def created_id_def fail_def split: sum.splits)
next
  case (GetTask pid)
  with assms show ?thesis
    by (auto simp: handle_def get_task_def created_id_def fail_def split: sum.splits list.splits)
next
  case (CreateTask b)
  show ?thesis
  proof (cases "truthy (title b)")
    case False
    with assms CreateTask show ?thesis by (auto simp: handle_def post_task_def created_id_def fail_def)
  next
    case True
    show ?thesis
    proof (cases "insert_row s (title b) (js_or (description b) (JStr ''''))")
      case (Inl err)
      with assms CreateTask True show ?thesis by (auto simp: handle_def post_task_def created_id_def fail_def)
    next
      case (Inr p)
      obtain res st where p: "p = (res, st)" by (cases p)
      from assms CreateTask True Inr p have eq: "s' = st"
        and resp: "created_id resp = Some (insertId res)"
        by (auto simp: handle_def post_task_def created_id_def fail_def json_def truthy_defined)
      from insert_row_grows [OF Inr [unfolded p]] eq resp show ?thesis by auto
    qed
  qed
next
  case (UpdateTask pid b)
  show ?thesis
  proof (cases "update_row s (title b) (js_or (description b) (JStr '''')) pid")
    case (Inl err)
    with assms UpdateTask show ?thesis by (auto simp: handle_def put_task_def created_id_def fail_def)
  next
    case (Inr p)
    obtain res st where p: "p = (res, st)" by (cases p)
    from assms UpdateTask Inr p have eq: "s' = st" and resp: "created_id resp = None"
      by (auto simp: handle_def put_task_def created_id_def fail_def split: if_splits)
    from update_row_same [OF Inr [unfolded p]] eq resp show ?thesis by auto
  qed
next
  case (DeleteTask pid)
  show ?thesis
  proof (cases "delete_row s pid")
    case (Inl err)
    with assms DeleteTask show ?thesis by (auto simp: handle_def delete_task_def created_id_def fail_def)
  next
    case (Inr p)
    obtain res st where p: "p = (res, st)" by (cases p)
    from assms DeleteTask Inr p have eq: "s' = st" and resp: "created_id resp = None"
      by (auto simp: handle_def delete_task_def created_id_def fail_def split: if_splits)
    from delete_row_same [OF Inr [unfolded p]] eq resp show ?thesis by auto
  qed
qed

lemma create_table_grows:
  assumes "create_table s = Inr s'"
  shows "next_key s \<le> next_key s' \<and> (keys_below s \<longrightarrow> keys_below s')"
  using assms
  by (auto simp: create_table_def next_key_def keys_below_def split: if_splits)

lemma create_database_grows:
  assumes "create_database s sql = Inr s'"
  shows "next_key s \<le> next_key s' \<and> (keys_below s \<longrightarrow> keys_below s')"
  using assms
  by (auto simp: create_database_def next_key_def keys_below_def split: if_splits)

lemma query_done_grows:
  "next_key (db s) \<le> next_key (db (query_done e s))
   \<and> (keys_below (db s) \<longrightarrow> keys_below (db (query_done e s)))"
proof (cases "pc s")
  case AwaitCreateDb
  then show ?thesis
    using create_database_grows [of "db s" "create_database_sql e"]
    by (auto simp: query_done_def retry_def split: sum.splits)
next
  case AwaitCreateTable
  then show ?thesis
    using create_table_grows [of "db s"]
    by (auto simp: query_done_def retry_def split: sum.splits)
qed (simp_all add: query_done_def)

lemma timer_fires_db: "db (timer_fires e s) = db s"
  by (simp add: timer_fires_def initDb_def split: init_pc.splits)

lemma step_grows:
  assumes "step e s ev = (s', ro)"
  shows "next_key (db s) \<le> next_key (db s')
         \<and> (keys_below (db s) \<longrightarrow> keys_below (db s'))
         \<and> (\<forall>r i. ro = Some r \<and> created_id r = Some i \<longrightarrow>
               next_key (db s) = i \<and> next_key (db s') = i + 1)"
proof (cases ev)
  case (Request r)
  show ?thesis
  proof (cases "listening s")
    case False
    with assms Request show ?thesis by (auto simp: step_def)
  next
    case True
    obtain resp st q where h: "handle (db s) r = (resp, st, q)" by (cases "handle (db s) r")
    from assms Request True h have s': "db s' = st" and ro: "ro = Some resp"
      by (auto simp: step_def)
    from handle_grows [OF h] s' ro show ?thesis by (auto simp: next_key_def)
  qed
next
  case QueryDone
  with assms query_done_grows [of s e] show ?thesis by (auto simp: step_def)
next
  case TimerFires
  with assms show ?thesis by (auto simp: step_def timer_fires_db)
next
  case (Tick d)
  with assms show ?thesis by (auto simp: step_def next_key_def keys_below_def)
next
  case Outage
  with assms show ?thesis by (auto simp: step_def next_key_def keys_below_def)
next
  case Recovery
  with assms show ?thesis by (auto simp: step_def next_key_def keys_below_def)
qed

lemma created_ids_append:
  "created_ids e s (evs1 @ evs2) = created_ids e s evs1 @ created_ids e (run e s evs1) evs2"
  by (induction evs1 arbitrary: s) simp_all

lemma run_keys_below: "keys_below (db s) \<Longrightarrow> keys_below (db (run e s evs))"
proof (induction evs arbitrary: s)
  case Nil
  then show ?case by simp
next
  case (Cons ev evs)
  from step_grows [of e s ev "fst (step e s ev)" "snd (step e s ev)"] Cons.prems
  have "keys_below (db (fst (step e s ev)))" by simp
  then show ?case using Cons.IH by simp
qed

lemma created_ids_sorted:
  "sorted_wrt (<) (created_ids e s evs) \<and> (\<forall>i\<in>set (created_ids e s evs). next_key (db s) \<le> i)"
proof (induction evs arbitrary: s)
  case Nil
  show ?case by simp
next
  case (Cons ev evs)
  define s' where "s' = fst (step e s ev)"
  define ro where "ro = snd (step e s ev)"
  have st: "step e s ev = (s', ro)" by (simp add: s'_def ro_def)
  note g = step_grows [OF st]
  note ih = Cons.IH [of s']
  show ?case
  proof (cases "\<exists>r i. ro = Some r \<and> created_id r = Some i")
    case True
    then obtain r i where r: "ro = Some r" "created_id r = Some i" by blast
    with g have k: "next_key (db s) = i" "next_key (db s') = i + 1" by auto
    have ids: "created_ids e s (ev # evs) = i # created_ids e s' evs"
      using r by (simp add: s'_def [symmetric] ro_def [symmetric])
    from ih k show ?thesis unfolding ids by auto
  next
    case False
    then have ids: "created_ids e s (ev # evs) = created_ids e s' evs"
      by (auto simp: s'_def [symmetric] ro_def [symmetric] split: option.splits)
    from ih g show ?thesis unfolding ids by auto
  qed
qed

lemma keys_below_next_key: "keys_below st \<Longrightarrow> r \<in> set (rows st) \<Longrightarrow> t_id r < next_key st"
  by (auto simp: keys_below_def next_key_def list_all_iff)

text \<open>
  C5. In every history of the process (requests of every kind, the steps of
  initialisation, time passing, outages), the ids returned by the successful creations
  are strictly increasing, hence pairwise distinct; and the key of any row that is in
  the table at some point of the history, deleted later or not, is smaller than every
  id a later creation returns, so no id is given out twice.
\<close>

theorem created_ids_increase:
  assumes "keys_below (db s)"
  shows "sorted_wrt (<) (created_ids e s evs)
         \<and> distinct (created_ids e s evs)
         \<and> created_ids e s (evs1 @ evs2) =
             created_ids e s evs1 @ created_ids e (run e s evs1) evs2
         \<and> (\<forall>r\<in>set (rows (db (run e s evs1))).
              \<forall>i\<in>set (created_ids e (run e s evs1) evs2). t_id r < i)"
proof -
  have 1: "sorted_wrt (<) (created_ids e s evs)" using created_ids_sorted by blast
  then have 2: "distinct (created_ids e s evs)" by (simp add: strict_sorted_iff)
  have 3: "\<forall>r\<in>set (rows (db (run e s evs1))).
              \<forall>i\<in>set (created_ids e (run e s evs1) evs2). t_id r < i"
  proof (intro ballI)
    fix r i
    assume r: "r \<in> set (rows (db (run e s evs1)))"
      and i: "i \<in> set (created_ids e (run e s evs1) evs2)"
    from keys_below_next_key [OF run_keys_below [OF assms] r]
    have "t_id r < next_key (db (run e s evs1))" .
    also from created_ids_sorted [of e "run e s evs1" evs2] i
    have "next_key (db (run e s evs1)) \<le> i" by blast
    finally show "t_id r < i" .
  qed
  from 1 2 3 show ?thesis by (simp add: created_ids_append)
qed

lemmas run_defs = ev_init_A_def ev_del_C_def app_listen_def initDb_def step_def query_done_def
  create_database_def create_table_def handle_def post_task_def delete_task_def insert_row_def
  delete_row_def pool_error_def check_columns_def js_or_def json_def created_id_def db_fresh_def
  env0_def env_or_def hit_def path_key_def

lemma run_A:
  "run env0 (app_listen env0 db_fresh) ev_init_A =
     \<lparr>listening = True, pc = Ready, clock = 0,
      console = [LogRunning ''5000'', LogInitOk],
      sent = [Stmt (create_database_sql env0) [], Stmt create_table_sql [],
              Stmt ''INSERT INTO tasks (title, description) VALUES (?, ?)'' [JStr ''A'', JStr ''B'']],
      db = db1\<rparr>"
  by (simp add: run_defs db1_def db0_def)

lemma ids_A: "created_ids env0 (app_listen env0 db_fresh) ev_init_A = [1]"
  by (simp add: run_defs)

lemma ids_C:
  "created_ids env0
     \<lparr>listening = True, pc = Ready, clock = 0,
      console = [LogRunning ''5000'', LogInitOk],
      sent = [Stmt (create_database_sql env0) [], Stmt create_table_sql [],
              Stmt ''INSERT INTO tasks (title, description) VALUES (?, ?)'' [JStr ''A'', JStr ''B'']],
      db = db1\<rparr> ev_del_C = [2]"
  by (simp add: run_defs db1_def db0_def)

text \<open>A create, the deletion of its row, and a second create: ids 1 and 2.\<close>

theorem created_ids_increase_witness:
  "keys_below (db (app_listen env0 db_fresh))
   \<and> created_ids env0 (app_listen env0 db_fresh) (ev_init_A @ ev_del_C) = [1, 2]
   \<and> rows (db (run env0 (app_listen env0 db_fresh) ev_init_A)) =
       [\<lparr>t_id = 1, t_title = ''A'', t_description = Some ''B'', t_created_at = 0\<rparr>]
   \<and> created_ids env0 (run env0 (app_listen env0 db_fresh) ev_init_A) ev_del_C = [2]"
proof -
  have k: "keys_below (db (app_listen env0 db_fresh))"
    by (simp add: keys_below_def app_listen_def initDb_def db_fresh_def)
  have r: "rows db1 = [\<lparr>t_id = 1, t_title = ''A'', t_description = Some ''B'', t_created_at = 0\<rparr>]"
    by (simp add: db1_def db0_def)
  from created_ids_increase [OF k, of env0 "ev_init_A @ ev_del_C" ev_init_A ev_del_C]
  show ?thesis using k by (simp add: run_A ids_A ids_C r)
qed

section \<open>The statements of initialisation\<close>

text \<open>
  C10. With \<open>DB_NAME\<close> set to \<open>v\<close>, the first statement \<open>initDb\<close> sends contains \<open>v\<close>
  as it is: for a non-empty \<open>v\<close> the text is \<open>CREATE DATABASE IF NOT EXISTS\<close> followed by
  \<open>v\<close>, sent with no bound values, and two different non-empty names give two different
  statements.
\<close>

theorem create_database_sql_text:
  assumes "DB_NAME e = Some v"
  shows "(\<exists>pre post. create_database_sql e = pre @ v @ post)
         \<and> (v \<noteq> [] \<longrightarrow> create_database_sql e = ''CREATE DATABASE IF NOT EXISTS '' @ v)
         \<and> sent (app_listen e st) = [Stmt (create_database_sql e) []]
         \<and> (DB_NAME e' = Some w \<and> v \<noteq> [] \<and> w \<noteq> [] \<and> v \<noteq> w \<longrightarrow>
               create_database_sql e \<noteq> create_database_sql e')"
proof -
  have 1: "\<exists>pre post. create_database_sql e = pre @ v @ post"
  proof (cases "v = []")
    case True
    then have "create_database_sql e = create_database_sql e @ v @ []" by simp
    then show ?thesis by blast
  next
    case False
    with assms have "create_database_sql e = ''CREATE DATABASE IF NOT EXISTS '' @ v @ []"
      by (simp add: create_database_sql_def env_or_def)
    then show ?thesis by blast
  qed
  from assms have 2: "v \<noteq> [] \<longrightarrow> create_database_sql e = ''CREATE DATABASE IF NOT EXISTS '' @ v"
    by (simp add: create_database_sql_def env_or_def)
  have 3: "sent (app_listen e st) = [Stmt (create_database_sql e) []]"
    by (simp add: app_listen_def initDb_def)
  from assms have 4: "DB_NAME e' = Some w \<and> v \<noteq> [] \<and> w \<noteq> [] \<and> v \<noteq> w \<longrightarrow>
               create_database_sql e \<noteq> create_database_sql e'"
    by (simp add: create_database_sql_def env_or_def)
  from 1 2 3 4 show ?thesis by blast
qed

theorem create_database_sql_text_witness:
  "DB_NAME env_inject = Some ''x; DROP DATABASE y''
   \<and> create_database_sql env_inject = ''CREATE DATABASE IF NOT EXISTS x; DROP DATABASE y''
   \<and> sent (app_listen env_inject db_down) =
       [Stmt ''CREATE DATABASE IF NOT EXISTS x; DROP DATABASE y'' []]"
proof -
  have d: "DB_NAME env_inject = Some ''x; DROP DATABASE y''" by (simp add: env_inject_def)
  from create_database_sql_text [OF d, of db_down] show ?thesis using d by simp
qed

section \<open>Start-up\<close>

lemma run_append: "run e s (evs1 @ evs2) = run e (run e s evs1) evs2"
  by (induction evs1 arbitrary: s) simp_all

lemma step_listening: "listening (fst (step e s ev)) = listening s"
proof (cases ev)
  case (Request r)
  then show ?thesis by (cases "handle (db s) r") (simp add: step_def)
next
  case QueryDone
  then show ?thesis
    by (simp add: step_def query_done_def retry_def split: init_pc.splits sum.splits)
next
  case TimerFires
  then show ?thesis
    by (simp add: step_def timer_fires_def initDb_def split: init_pc.splits)
qed (simp_all add: step_def)

lemma run_listening: "listening (run e s evs) = listening s"
  by (induction evs arbitrary: s) (simp_all add: step_listening)

lemma failed_round:
  assumes "pc s = AwaitCreateDb" and "\<not> up (db s)"
  shows "run e s [QueryDone, Tick 5000, TimerFires] =
           s\<lparr>clock := clock s + 5000,
             console := console s @ [LogInitError ConnectionRefused],
             sent := sent s @ [Stmt (create_database_sql e) []],
             db := (db s)\<lparr>now := now (db s) + 5000\<rparr>\<rparr>"
  using assms
  by (simp add: step_def query_done_def create_database_def retry_def timer_fires_def
      initDb_def)

lemma failed_rounds_state:
  assumes "\<not> up st"
  shows "run e (app_listen e st) (failed_rounds n) =
           \<lparr>listening = True, pc = AwaitCreateDb, clock = 5000 * n,
            console = LogRunning (env_or (PORT e) ''5000'') #
                        replicate n (LogInitError ConnectionRefused),
            sent = replicate (Suc n) (Stmt (create_database_sql e) []),
            db = st\<lparr>now := now st + 5000 * n\<rparr>\<rparr>"
proof (induction n)
  case 0
  show ?case by (simp add: app_listen_def initDb_def)
next
  case (Suc n)
  have "run e (app_listen e st) (failed_rounds (Suc n)) =
          run e (run e (app_listen e st) (failed_rounds n)) [QueryDone, Tick 5000, TimerFires]"
    by (simp only: failed_rounds.simps run_append)
  also have "\<dots> =
           \<lparr>listening = True, pc = AwaitCreateDb, clock = 5000 * Suc n,
            console = LogRunning (env_or (PORT e) ''5000'') #
                        replicate (Suc n) (LogInitError ConnectionRefused),
            sent = replicate (Suc (Suc n)) (Stmt (create_database_sql e) []),
            db = st\<lparr>now := now st + 5000 * Suc n\<rparr>\<rparr>"
    unfolding Suc.IH using assms
    by (subst failed_round) (simp_all add: replicate_append_same)
  finally show ?case .
qed

lemma recovered_init:
  assumes "\<not> up st"
  shows "pc (run e (app_listen e st) (failed_rounds n @ [Recovery, QueryDone, QueryDone])) = Ready
         \<and> pool_error (db (run e (app_listen e st)
                               (failed_rounds n @ [Recovery, QueryDone, QueryDone]))) = None"
  by (simp add: run_append failed_rounds_state [OF assms] step_def query_done_def
      create_database_def create_table_def pool_error_def)

lemma step_request_unready:
  assumes "listening s" and "pool_error (db s) = Some err"
  shows "snd (step e s (Request Health)) =
           Some \<lparr>status = 200, payload = Fields [(''status'', JStr ''healthy'')]\<rparr>"
    and "snd (step e s (Request ListTasks)) =
           Some \<lparr>status = 500, payload = Fields [(''error'', JStr ''Failed to fetch tasks'')]\<rparr>"
    and "snd (step e s (Request (GetTask pid))) =
           Some \<lparr>status = 500, payload = Fields [(''error'', JStr ''Failed to fetch task'')]\<rparr>"
    and "snd (step e s (Request (CreateTask b))) =
           Some (if truthy (title b)
                 then \<lparr>status = 500, payload = Fields [(''error'', JStr ''Failed to create task'')]\<rparr>
                 else \<lparr>status = 400, payload = Fields [(''error'', JStr ''Title is required'')]\<rparr>)"
    and "snd (step e s (Request (UpdateTask pid b))) =
           Some \<lparr>status = 500, payload = Fields [(''error'', JStr ''Failed to update task'')]\<rparr>"
    and "snd (step e s (Request (DeleteTask pid))) =
           Some \<lparr>status = 500, payload = Fields [(''error'', JStr ''Failed to delete task'')]\<rparr>"
  using assms
  by (simp_all add: step_def handle_def get_health_def get_tasks_def get_task_def post_task_def
      put_task_def delete_task_def select_all_def select_by_id_def insert_row_def update_row_def
      delete_row_def fail_def json_def)

lemma step_request_init:
  "pc (fst (step e s (Request r))) = pc s \<and> console (fst (step e s (Request r))) = console s
   \<and> clock (fst (step e s (Request r))) = clock s"
  by (cases "handle (db s) r") (simp add: step_def)

text \<open>
  C7. The listener is up from the first state of the process, whatever the store, and
  stays up through every history. When the statement \<open>initDb\<close> waits for fails, the
  failure is logged and a timer is set for 5000 ms after the failure; the timer does
  nothing before it is due and starts \<open>initDb\<close> again once it is. Nothing counts the
  attempts: against a store that does not answer, after any number \<open>n\<close> of failed rounds the
  next attempt is on its way at time \<open>5000 * n\<close>, and once the store is back that attempt
  succeeds. Handling a request neither reads nor changes the state of initialisation;
  while the pool cannot reach the table, each route answers its own fixed 500 message
  (the health check 200, a create without title 400).
\<close>

theorem initDb_retries:
  "listening (run e (app_listen e st) evs)
   \<and> (\<not> up st \<longrightarrow>
        run e (app_listen e st) (failed_rounds n) =
          \<lparr>listening = True, pc = AwaitCreateDb, clock = 5000 * n,
           console = LogRunning (env_or (PORT e) ''5000'') #
                       replicate n (LogInitError ConnectionRefused),
           sent = replicate (Suc n) (Stmt (create_database_sql e) []),
           db = st\<lparr>now := now st + 5000 * n\<rparr>\<rparr>
        \<and> pc (run e (app_listen e st) (failed_rounds n @ [Recovery, QueryDone, QueryDone])) = Ready
        \<and> pool_error (db (run e (app_listen e st)
                             (failed_rounds n @ [Recovery, QueryDone, QueryDone]))) = None)
   \<and> (pc s = AwaitCreateDb \<and> create_database (db s) (create_database_sql e) = Inl err \<longrightarrow>
        fst (step e s QueryDone) =
          s\<lparr>console := console s @ [LogInitError err], pc := Sleeping (clock s + 5000)\<rparr>)
   \<and> (pc s = AwaitCreateTable \<and> create_table (db s) = Inl err \<longrightarrow>
        fst (step e s QueryDone) =
          s\<lparr>console := console s @ [LogInitError err], pc := Sleeping (clock s + 5000)\<rparr>)
   \<and> (pc s = Sleeping due \<longrightarrow>
        fst (step e s TimerFires) =
          (if due \<le> clock s
           then s\<lparr>pc := AwaitCreateDb, sent := sent s @ [Stmt (create_database_sql e) []]\<rparr>
           else s))
   \<and> pc (fst (step e s (Request r))) = pc s
   \<and> console (fst (step e s (Request r))) = console s
   \<and> snd (step e (s\<lparr>pc := p, console := c\<rparr>) (Request r)) = snd (step e s (Request r))
   \<and> (listening s \<and> pool_error (db s) = Some err' \<longrightarrow>
        snd (step e s (Request Health)) =
          Some \<lparr>status = 200, payload = Fields [(''status'', JStr ''healthy'')]\<rparr>
        \<and> snd (step e s (Request ListTasks)) =
          Some \<lparr>status = 500, payload = Fields [(''error'', JStr ''Failed to fetch tasks'')]\<rparr>
        \<and> snd (step e s (Request (GetTask pid))) =
          Some \<lparr>status = 500, payload = Fields [(''error'', JStr ''Failed to fetch task'')]\<rparr>
        \<and> snd (step e s (Request (CreateTask b))) =
          Some (if truthy (title b)
                then \<lparr>status = 500, payload = Fields [(''error'', JStr ''Failed to create task'')]\<rparr>
                else \<lparr>status = 400, payload = Fields [(''error'', JStr ''Title is required'')]\<rparr>)
        \<and> snd (step e s (Request (UpdateTask pid b))) =
          Some \<lparr>status = 500, payload = Fields [(''error'', JStr ''Failed to update task'')]\<rparr>
        \<and> snd (step e s (Request (DeleteTask pid))) =
          Some \<lparr>status = 500, payload = Fields [(''error'', JStr ''Failed to delete task'')]\<rparr>)"
proof (intro conjI impI)
  show "listening (run e (app_listen e st) evs)"
    by (simp add: run_listening app_listen_def initDb_def)
next
  assume "\<not> up st"
  then show "run e (app_listen e st) (failed_rounds n) =
          \<lparr>listening = True, pc = AwaitCreateDb, clock = 5000 * n,
           console = LogRunning (env_or (PORT e) ''5000'') #
                       replicate n (LogInitError ConnectionRefused),
           sent = replicate (Suc n) (Stmt (create_database_sql e) []),
           db = st\<lparr>now := now st + 5000 * n\<rparr>\<rparr>"
    by (rule failed_rounds_state)
next
  assume "\<not> up st"
  from recovered_init [OF this]
  show "pc (run e (app_listen e st) (failed_rounds n @ [Recovery, QueryDone, QueryDone])) = Ready"
    by blast
next
  assume "\<not> up st"
  from recovered_init [OF this]
  show "pool_error (db (run e (app_listen e st)
                             (failed_rounds n @ [Recovery, QueryDone, QueryDone]))) = None"
    by blast
next
  assume "pc s = AwaitCreateDb \<and> create_database (db s) (create_database_sql e) = Inl err"
  then show "fst (step e s QueryDone) =
          s\<lparr>console := console s @ [LogInitError err], pc := Sleeping (clock s + 5000)\<rparr>"
    by (simp add: step_def query_done_def retry_def)
next
  assume "pc s = AwaitCreateTable \<and> create_table (db s) = Inl err"
  then show "fst (step e s QueryDone) =
          s\<lparr>console := console s @ [LogInitError err], pc := Sleeping (clock s + 5000)\<rparr>"
    by (simp add: step_def query_done_def retry_def)
next
  assume "pc s = Sleeping due"
  then show "fst (step e s TimerFires) =
          (if due \<le> clock s
           then s\<lparr>pc := AwaitCreateDb, sent := sent s @ [Stmt (create_database_sql e) []]\<rparr>
           else s)"
    by (simp add: step_def timer_fires_def initDb_def)
next
  show "pc (fst (step e s (Request r))) = pc s" by (simp add: step_request_init)
  show "console (fst (step e s (Request r))) = console s" by (simp add: step_request_init)
  show "snd (step e (s\<lparr>pc := p, console := c\<rparr>) (Request r)) = snd (step e s (Request r))"
    by (cases "handle (db s) r") (simp add: step_def)
next
  assume a: "listening s \<and> pool_error (db s) = Some err'"
  then have l: "listening s" and p: "pool_error (db s) = Some err'" by simp_all
  note step_request_unready [OF l p]
  then show "snd (step e s (Request Health)) =
          Some \<lparr>status = 200, payload = Fields [(''status'', JStr ''healthy'')]\<rparr>"
    and "snd (step e s (Request ListTasks)) =
          Some \<lparr>status = 500, payload = Fields [(''error'', JStr ''Failed to fetch tasks'')]\<rparr>"
    and "snd (step e s (Request (GetTask pid))) =
          Some \<lparr>status = 500, payload = Fields [(''error'', JStr ''Failed to fetch task'')]\<rparr>"
    and "snd (step e s (Request (CreateTask b))) =
          Some (if truthy (title b)
                then \<lparr>status = 500, payload = Fields [(''error'', JStr ''Failed to create task'')]\<rparr>
                else \<lparr>status = 400, payload = Fields [(''error'', JStr ''Title is required'')]\<rparr>)"
    and "snd (step e s (Request (UpdateTask pid b))) =
          Some \<lparr>status = 500, payload = Fields [(''error'', JStr ''Failed to update task'')]\<rparr>"
    and "snd (step e s (Request (DeleteTask pid))) =
          Some \<lparr>status = 500, payload = Fields [(''error'', JStr ''Failed to delete task'')]\<rparr>"
    by blast+
qed

theorem initDb_retries_witness:
  "\<not> up db_down
   \<and> run env0 (app_listen env0 db_down) (failed_rounds 2) =
       \<lparr>listening = True, pc = AwaitCreateDb, clock = 10000,
        console = [LogRunning ''5000'', LogInitError ConnectionRefused,
                   LogInitError ConnectionRefused],
        sent = [Stmt ''CREATE DATABASE IF NOT EXISTS tasksdb'' [],
                Stmt ''CREATE DATABASE IF NOT EXISTS tasksdb'' [],
                Stmt ''CREATE DATABASE IF NOT EXISTS tasksdb'' []],
        db = db_down\<lparr>now := 10000\<rparr>\<rparr>
   \<and> snd (step env0 (run env0 (app_listen env0 db_down) (failed_rounds 2)) (Request ListTasks)) =
       Some \<lparr>status = 500, payload = Fields [(''error'', JStr ''Failed to fetch tasks'')]\<rparr>
   \<and> pc (run env0 (app_listen env0 db_down)
            (failed_rounds 2 @ [Recovery, QueryDone, QueryDone])) = Ready"
proof -
  have d: "\<not> up db_down" by (simp add: db_down_def)
  note w = initDb_retries [where e = env0 and st = db_down and n = 2
      and s = "run env0 (app_listen env0 db_down) (failed_rounds 2)"
      and err' = ConnectionRefused]
  from w d have "run env0 (app_listen env0 db_down) (failed_rounds 2) =
          \<lparr>listening = True, pc = AwaitCreateDb, clock = 5000 * 2,
           console = LogRunning (env_or (PORT env0) ''5000'') #
                       replicate 2 (LogInitError ConnectionRefused),
           sent = replicate (Suc 2) (Stmt (create_database_sql env0) []),
           db = db_down\<lparr>now := now db_down + 5000 * 2\<rparr>\<rparr>"
    by blast
  then have r: "run env0 (app_listen env0 db_down) (failed_rounds 2) =
       \<lparr>listening = True, pc = AwaitCreateDb, clock = 10000,
        console = [LogRunning ''5000'', LogInitError ConnectionRefused,
                   LogInitError ConnectionRefused],
        sent = [Stmt ''CREATE DATABASE IF NOT EXISTS tasksdb'' [],
                Stmt ''CREATE DATABASE IF NOT EXISTS tasksdb'' [],
                Stmt ''CREATE DATABASE IF NOT EXISTS tasksdb'' []],
        db = db_down\<lparr>now := 10000\<rparr>\<rparr>"
    by (simp add: numeral_2_eq_2 env0_def env_or_def create_database_sql_def db_down_def)
  from w d have c: "pc (run env0 (app_listen env0 db_down)
            (failed_rounds 2 @ [Recovery, QueryDone, QueryDone])) = Ready"
    by blast
  have l: "listening (run env0 (app_listen env0 db_down) (failed_rounds 2))"
    by (simp add: r)
  have p: "pool_error (db (run env0 (app_listen env0 db_down) (failed_rounds 2))) =
             Some ConnectionRefused"
    unfolding r by (simp add: pool_error_def db_down_def)
  from w l p
  have q: "snd (step env0 (run env0 (app_listen env0 db_down) (failed_rounds 2))
             (Request ListTasks)) =
       Some \<lparr>status = 500, payload = Fields [(''error'', JStr ''Failed to fetch tasks'')]\<rparr>"
    by blast
  from d r c q show ?thesis by blast
qed

end
